theory Spec2Isabelle
  imports Main "HOL-Library.Sublist"
begin

section \<open>Struct tags and the five source markers\<close>

text \<open>
  A Go struct tag is read with \<^verbatim>\<open>tag.Get(key)\<close>, which gives the value of the first
  \<^verbatim>\<open>key:"value"\<close> pair with that key and the empty string when there is none. The tag
  is kept as the list of its pairs, in the order they are written.
\<close>

type_synonym tag = "(string \<times> string) list"

definition Get :: "tag \<Rightarrow> string \<Rightarrow> string" where
  "Get t k = (case map_of t k of None \<Rightarrow> [] | Some v \<Rightarrow> v)"

definition path :: string where "path = ''path''"
definition query :: string where "query = ''query''"
definition body :: string where "body = ''body''"
definition jjson :: string where "jjson = ''json''"
definition cookie :: string where "cookie = ''cookie''"

text \<open>The order in which \<^verbatim>\<open>Bind\<close>'s switch and \<^verbatim>\<open>getFieldInfo\<close> test the markers.\<close>

definition sources :: "string list" where
  "sources = [path, query, body, jjson, cookie]"

text \<open>\<^verbatim>\<open>strings.Contains(s, substr)\<close>: \<open>substr\<close> occurs in \<open>s\<close> as a contiguous run.\<close>

definition Contains :: "string \<Rightarrow> string \<Rightarrow> bool" where
  "Contains s substr = sublist substr s"

section \<open>Raw values and destination values\<close>

text \<open>
  The raw values are the dynamic values \<^verbatim>\<open>Bind\<close>'s sources produce: a string (path, query,
  cookie, a form field given once), a \<^verbatim>\<open>[]string\<close> (a form field given several times),
  and what \<^verbatim>\<open>encoding/json\<close> decodes into \<^verbatim>\<open>interface{}\<close>: nil, string, float64, bool,
  \<^verbatim>\<open>[]interface{}\<close> and \<^verbatim>\<open>map[string]interface{}\<close>. The arms of the coercion switches
  for Go's integer types and float32 are not reachable from these. A decoded map is
  kept as an association list read with \<open>map_of\<close>. IEEE arithmetic is not modelled: the
  type \<open>'f\<close> stands for float64 and its operations are parameters.
\<close>

datatype 'f raw =
    RNil
  | RString string
  | RFloat64 'f
  | RBool bool
  | RSlice "'f raw list"
  | RMap "(string \<times> 'f raw) list"
  | RStrings "string list"

text \<open>
  A destination value is a \<^verbatim>\<open>reflect.Value\<close> together with its static type, one
  constructor per \<^verbatim>\<open>reflect.Kind\<close> that \<^verbatim>\<open>setField\<close> distinguishes. Integers carry
  their width in bits (\<^verbatim>\<open>int\<close> and \<^verbatim>\<open>uint\<close> are 64 bits wide). A type is represented by
  its zero value: \<open>VSlice z xs\<close> and \<open>VPtr z p\<close> carry the zero value \<open>z\<close> of the element
  type, which is what \<^verbatim>\<open>reflect.MakeSlice\<close> and \<^verbatim>\<open>reflect.New\<close> allocate; \<open>xs = None\<close> is
  the nil slice and \<open>p = None\<close> the nil pointer. \<open>VNamed n u\<close> is a value of the named
  type \<open>n\<close> with underlying value \<open>u\<close> whose pointer type has an \<^verbatim>\<open>UnmarshalText\<close>
  method (the form the README documents); a named type without it behaves as its
  underlying type and is written as that. \<open>VOther k\<close> is a value of any other kind
  (map, complex, interface, chan, func), \<open>k\<close> being the kind's name. A struct is the
  list of its fields, each with its declared name, its tag and its value. All fields
  are exported and every value is addressable, as they are under a pointer to a struct.
\<close>

datatype 'f gval =
    VString string
  | VInt nat int
  | VUint nat int
  | VFloat nat 'f
  | VBool bool
  | VSlice "'f gval" "'f gval list option"
  | VArray "'f gval list"
  | VStruct "'f sfield list"
  | VPtr "'f gval" "'f gval option"
  | VNamed string "'f gval"
  | VOther string
and 'f sfield =
    SField (Name: string) (Tag: tag) (Val: "'f gval")

section \<open>Errors\<close>

text \<open>
  One constructor per error the package builds; a wrapping error (\<^verbatim>\<open>%w\<close>) holds the
  error it wraps. \<open>ErrUser\<close> is an error returned by the caller's own \<^verbatim>\<open>UnmarshalText\<close>
  or \<^verbatim>\<open>Validate\<close>, \<open>ErrSyntax\<close> and \<open>ErrRange\<close> are \<^verbatim>\<open>strconv\<close>'s, \<open>Panic\<close> is a
  run-time panic of \<^verbatim>\<open>reflect\<close>.
\<close>

datatype error =
    ErrReadBody string
  | ErrBindNested string error
  | ErrSetField string error
  | ErrValidation error
  | ErrSetNested string error
  | ErrDecodeJSON string
  | ErrParseForm string
  | ErrNotString
  | ErrArrays
  | ErrUnsupported string
  | ErrCannotConvert string
  | ErrNegativeFloat
  | ErrSliceElem nat error
  | ErrStructField string error
  | ErrStructValue
  | ErrSyntax string
  | ErrRange string
  | ErrUser string
  | Panic string

section \<open>The request\<close>

text \<open>
  What \<^verbatim>\<open>Bind\<close> reads of an \<^verbatim>\<open>*http.Request\<close>. The body is a stream: the bytes still to
  be read and the error, if any, that reading meets after them. \<^verbatim>\<open>io.ReadAll\<close> gives
  both and leaves the stream drained.
\<close>

datatype stream = Stream (pending: string) (failure: "string option")

record request =
  Method :: string
  PathValues :: "(string \<times> string) list"
  URLQuery :: "(string \<times> string list) list"
  Cookies :: "(string \<times> string) list"
  ContentType :: string
  ContentLength :: int
  Body :: "stream option"

text \<open>\<^verbatim>\<open>r.PathValue(name)\<close>: the empty string when no wildcard has that name.\<close>

definition PathValue :: "request \<Rightarrow> string \<Rightarrow> string" where
  "PathValue r name = (case map_of (PathValues r) name of None \<Rightarrow> [] | Some v \<Rightarrow> v)"

text \<open>\<^verbatim>\<open>r.URL.Query().Get(key)\<close>: the first value of the key, or the empty string.\<close>

definition QueryGet :: "request \<Rightarrow> string \<Rightarrow> string" where
  "QueryGet r key = (case map_of (URLQuery r) key of None \<Rightarrow> [] | Some [] \<Rightarrow> [] | Some (v # _) \<Rightarrow> v)"

text \<open>\<^verbatim>\<open>r.Cookie(name)\<close>: the first cookie of that name, \<^verbatim>\<open>ErrNoCookie\<close> (here \<open>None\<close>) otherwise.\<close>

definition Cookie :: "request \<Rightarrow> string \<Rightarrow> string option" where
  "Cookie r name = map_of (Cookies r) name"

section \<open>What the package takes from outside\<close>

text \<open>
  The decoders of the standard library, \<^verbatim>\<open>strings.TrimSpace\<close> and
  \<^verbatim>\<open>strings.ToLower\<close> (which work on Unicode text), the formatting verb \<^verbatim>\<open>%v\<close>,
  float64 and the caller's own methods are parameters. \<open>unmarshalText env n p s\<close> is the method
  \<^verbatim>\<open>(*n).UnmarshalText\<close> called with the text \<open>s\<close> on a receiver whose pointee is \<open>p\<close>
  (\<open>None\<close>: a nil receiver); it gives the pointee afterwards and the error returned.
  \<open>validate env\<close> is \<open>None\<close> when the destination type is no \<^verbatim>\<open>Validator\<close>, and otherwise
  its \<^verbatim>\<open>Validate\<close> method, which reads the record and returns an error or nil. A method
  that panics is outside the model.
\<close>

record 'f env =
  jsonDecode :: "string \<Rightarrow> string + (string \<times> 'f raw) list"
  parsePostForm :: "request \<Rightarrow> string + (string \<times> string list) list"
  TrimSpace :: "string \<Rightarrow> string"
  ToLower :: "string \<Rightarrow> string"
  fmtV :: "'f raw \<Rightarrow> string"
  floatToInt64 :: "'f \<Rightarrow> int"
  floatToUint64 :: "'f \<Rightarrow> int"
  floatNegative :: "'f \<Rightarrow> bool"
  floatIsZero :: "'f \<Rightarrow> bool"
  floatTo32 :: "'f \<Rightarrow> 'f"
  parseFloat :: "string \<Rightarrow> error + 'f"
  unmarshalText :: "string \<Rightarrow> 'f gval option \<Rightarrow> string \<Rightarrow> 'f gval option \<times> string option"
  validate :: "('f sfield list \<Rightarrow> string option) option"

section \<open>strconv\<close>

definition digit :: "char \<Rightarrow> nat option" where
  "digit c =
     (if c = CHR ''0'' then Some 0 else if c = CHR ''1'' then Some 1
      else if c = CHR ''2'' then Some 2 else if c = CHR ''3'' then Some 3
      else if c = CHR ''4'' then Some 4 else if c = CHR ''5'' then Some 5
      else if c = CHR ''6'' then Some 6 else if c = CHR ''7'' then Some 7
      else if c = CHR ''8'' then Some 8 else if c = CHR ''9'' then Some 9
      else None)"

text \<open>
  The digit loop of \<^verbatim>\<open>strconv.ParseUint(s, 10, 64)\<close>: a character that is no decimal
  digit is a syntax error, and a value past \<open>2\<^sup>6\<^sup>4 - 1\<close> is a range error as soon as it
  is reached, whatever follows. \<open>s0\<close> is the whole input, which the error carries.
\<close>

fun uintDigits :: "string \<Rightarrow> nat \<Rightarrow> string \<Rightarrow> error + nat" where
  "uintDigits s0 n [] = Inr n"
| "uintDigits s0 n (c # cs) =
     (case digit c of
        None \<Rightarrow> Inl (ErrSyntax s0)
      | Some d \<Rightarrow>
          if n \<ge> (2 ^ 64 - 1) div 10 + 1 then Inl (ErrRange s0)
          else if 10 * n + d > 2 ^ 64 - 1 then Inl (ErrRange s0)
          else uintDigits s0 (10 * n + d) cs)"

text \<open>\<^verbatim>\<open>strconv.ParseUint(s, 10, 64)\<close>\<close>

definition ParseUint :: "string \<Rightarrow> error + int" where
  "ParseUint s =
     (if s = [] then Inl (ErrSyntax s)
      else case uintDigits s 0 s of Inl e \<Rightarrow> Inl e | Inr n \<Rightarrow> Inr (int n))"

text \<open>
  \<^verbatim>\<open>strconv.ParseInt(s, 10, 64)\<close>: the sign is picked off, the rest is parsed as
  unsigned, and the result is checked against the 64-bit signed range.
\<close>

definition ParseInt :: "string \<Rightarrow> error + int" where
  "ParseInt s =
     (if s = [] then Inl (ErrSyntax s)
      else
        let neg = (hd s = CHR ''-'');
            rest = (if hd s = CHR ''+'' \<or> hd s = CHR ''-'' then tl s else s)
        in if rest = [] then Inl (ErrSyntax s)
           else case uintDigits s 0 rest of
                  Inl e \<Rightarrow> Inl e
                | Inr un \<Rightarrow>
                    if \<not> neg \<and> un \<ge> 2 ^ 63 then Inl (ErrRange s)
                    else if neg \<and> un > 2 ^ 63 then Inl (ErrRange s)
                    else Inr (if neg then - int un else int un))"

text \<open>\<^verbatim>\<open>strconv.ParseBool(s)\<close>\<close>

definition ParseBool :: "string \<Rightarrow> error + bool" where
  "ParseBool s =
     (if s \<in> set [''1'', ''t'', ''T'', ''TRUE'', ''true'', ''True''] then Inr True
      else if s \<in> set [''0'', ''f'', ''F'', ''FALSE'', ''false'', ''False''] then Inr False
      else Inl (ErrSyntax s))"

text \<open>
  \<^verbatim>\<open>reflect.Value.SetInt\<close> and \<^verbatim>\<open>SetUint\<close> store the 64-bit argument converted to the
  field's width, which wraps.
\<close>

definition wrapInt :: "nat \<Rightarrow> int \<Rightarrow> int" where
  "wrapInt bits x = (x + 2 ^ (bits - 1)) mod 2 ^ bits - 2 ^ (bits - 1)"

definition wrapUint :: "nat \<Rightarrow> int \<Rightarrow> int" where
  "wrapUint bits x = x mod 2 ^ bits"

section \<open>Coercion: setField and its helpers\<close>

text \<open>\<^verbatim>\<open>toString\<close>: a string passes through, anything else is formatted with \<^verbatim>\<open>%v\<close>.\<close>

definition toString :: "'f env \<Rightarrow> 'f raw \<Rightarrow> string" where
  "toString env v = (case v of RString s \<Rightarrow> s | _ \<Rightarrow> fmtV env v)"

definition setInt :: "'f env \<Rightarrow> nat \<Rightarrow> int \<Rightarrow> 'f raw \<Rightarrow> 'f gval \<times> error option" where
  "setInt env bits old v =
     (case v of
        RFloat64 x \<Rightarrow> (VInt bits (wrapInt bits (floatToInt64 env x)), None)
      | RString s \<Rightarrow>
          (case ParseInt s of
             Inl e \<Rightarrow> (VInt bits old, Some e)
           | Inr i \<Rightarrow> (VInt bits (wrapInt bits i), None))
      | _ \<Rightarrow> (VInt bits old, Some (ErrCannotConvert ''int'')))"

definition setUint :: "'f env \<Rightarrow> nat \<Rightarrow> int \<Rightarrow> 'f raw \<Rightarrow> 'f gval \<times> error option" where
  "setUint env bits old v =
     (case v of
        RFloat64 x \<Rightarrow>
          (if floatNegative env x then (VUint bits old, Some ErrNegativeFloat)
           else (VUint bits (wrapUint bits (floatToUint64 env x)), None))
      | RString s \<Rightarrow>
          (case ParseUint s of
             Inl e \<Rightarrow> (VUint bits old, Some e)
           | Inr i \<Rightarrow> (VUint bits (wrapUint bits i), None))
      | _ \<Rightarrow> (VUint bits old, Some (ErrCannotConvert ''uint'')))"

definition setBool :: "'f env \<Rightarrow> bool \<Rightarrow> 'f raw \<Rightarrow> 'f gval \<times> error option" where
  "setBool env old v =
     (case v of
        RBool b \<Rightarrow> (VBool b, None)
      | RString s \<Rightarrow>
          (case ParseBool s of
             Inl e \<Rightarrow> (VBool old, Some e)
           | Inr b \<Rightarrow> (VBool b, None))
      | RFloat64 x \<Rightarrow> (VBool (\<not> floatIsZero env x), None)
      | _ \<Rightarrow> (VBool old, Some (ErrCannotConvert ''bool'')))"

definition setFloat :: "'f env \<Rightarrow> nat \<Rightarrow> 'f \<Rightarrow> 'f raw \<Rightarrow> 'f gval \<times> error option" where
  "setFloat env bits old v =
     (let store = (\<lambda>x. VFloat bits (if bits = 32 then floatTo32 env x else x)) in
      case v of
        RFloat64 x \<Rightarrow> (store x, None)
      | RString s \<Rightarrow>
          (case parseFloat env s of
             Inl e \<Rightarrow> (VFloat bits old, Some e)
           | Inr x \<Rightarrow> (store x, None))
      | _ \<Rightarrow> (VFloat bits old, Some (ErrCannotConvert ''float'')))"

text \<open>\<^verbatim>\<open>Kind() == reflect.String\<close> and \<^verbatim>\<open>Kind() == reflect.Struct\<close>: the kind of a named type is its underlying type's.\<close>

fun isStringKind :: "'f gval \<Rightarrow> bool" where
  "isStringKind (VString _) = True"
| "isStringKind (VNamed _ u) = isStringKind u"
| "isStringKind _ = False"

fun isStructKind :: "'f gval \<Rightarrow> bool" where
  "isStructKind (VStruct _) = True"
| "isStructKind (VNamed _ u) = isStructKind u"
| "isStructKind _ = False"

text \<open>\<^verbatim>\<open>reflect.Value.SetString\<close> on a value of kind string.\<close>

fun SetString :: "'f gval \<Rightarrow> string \<Rightarrow> 'f gval" where
  "SetString (VNamed n u) s = VNamed n (SetString u s)"
| "SetString _ s = VString s"

text \<open>\<^verbatim>\<open>setString\<close>: \<^verbatim>\<open>toString\<close> gives no error in any of its arms.\<close>

definition setString :: "'f env \<Rightarrow> 'f raw \<Rightarrow> 'f gval \<times> error option" where
  "setString env value = (VString (toString env value), None)"

text \<open>
  \<^verbatim>\<open>setField\<close>, \<^verbatim>\<open>setSlice\<close> with its element loop and \<^verbatim>\<open>setStruct\<close> with its field
  loop call each other. Each returns the destination as the call leaves it and the
  error, if any: a failure keeps what was written before it. \<open>setField\<close> is the test
  for the nil value; \<open>setKind\<close> is the rest of \<^verbatim>\<open>setField\<close>: the two
  \<^verbatim>\<open>TextUnmarshaler\<close> tests (the field's type is a pointer to a named type with the
  method; the field's type is such a named type), then the switch on the kind.
\<close>

function (sequential) setField :: "'f env \<Rightarrow> 'f gval \<Rightarrow> 'f raw \<Rightarrow> 'f gval \<times> error option"
and setKind :: "'f env \<Rightarrow> 'f gval \<Rightarrow> 'f raw \<Rightarrow> 'f gval \<times> error option"
and setSlice :: "'f env \<Rightarrow> 'f gval \<Rightarrow> 'f gval list option \<Rightarrow> 'f raw \<Rightarrow> 'f gval \<times> error option"
and setSliceElems :: "'f env \<Rightarrow> 'f gval \<Rightarrow> 'f raw list \<Rightarrow> nat \<Rightarrow> 'f gval list \<times> error option"
and setStruct :: "'f env \<Rightarrow> 'f sfield list \<Rightarrow> 'f raw \<Rightarrow> 'f gval \<times> error option"
and setStructFields :: "'f env \<Rightarrow> (string \<times> 'f raw) list \<Rightarrow> 'f sfield list \<Rightarrow> 'f sfield list \<times> error option"
where
  "setField env field value =
     (if value = RNil then (field, None) else setKind env field value)"
| "setKind env (VNamed n u) value =
     (case value of
        RString strVal \<Rightarrow>
          (case unmarshalText env n (Some (VNamed n u)) strVal of
             (p', e) \<Rightarrow> ((case p' of None \<Rightarrow> VNamed n u | Some v \<Rightarrow> v), map_option ErrUser e))
      | _ \<Rightarrow> (VNamed n u, Some ErrNotString))"
| "setKind env (VString old) value = setString env value"
| "setKind env (VInt bits old) value = setInt env bits old value"
| "setKind env (VFloat bits old) value = setFloat env bits old value"
| "setKind env (VBool old) value = setBool env old value"
| "setKind env (VUint bits old) value = setUint env bits old value"
| "setKind env (VSlice z xs) value = setSlice env z xs value"
| "setKind env (VArray xs) value = (VArray xs, Some ErrArrays)"
| "setKind env (VStruct fs) value = setStruct env fs value"
| "setKind env (VPtr z p) value =
     (case z of
        VNamed n u \<Rightarrow>
          (case value of
             RString strVal \<Rightarrow>
               (case unmarshalText env n p strVal of
                  (p', e) \<Rightarrow> (VPtr z p', map_option ErrUser e))
           | _ \<Rightarrow> (VPtr z p, Some ErrNotString))
      | _ \<Rightarrow>
          (case p of
             None \<Rightarrow> (case setField env z value of (q, e) \<Rightarrow> (VPtr z (Some q), e))
           | Some elem \<Rightarrow> (case setField env elem value of (q, e) \<Rightarrow> (VPtr z (Some q), e))))"
| "setKind env (VOther k) value = (VOther k, Some (ErrUnsupported k))"
| "setSlice env z xs value =
     (case value of
        RSlice v \<Rightarrow>
          (case setSliceElems env z v 0 of
             (s, None) \<Rightarrow> (VSlice z (Some s), None)
           | (s, Some e) \<Rightarrow> (VSlice z xs, Some e))
      | RString strVal \<Rightarrow>
          (if isStringKind z then (VSlice z (Some [SetString z strVal]), None)
           else (VSlice z xs, Some (ErrCannotConvert ''slice'')))
      | _ \<Rightarrow> (VSlice z xs, Some (ErrCannotConvert ''slice'')))"
| "setSliceElems env z [] i = ([], None)"
| "setSliceElems env z (v # vs) i =
     (case (case z of
              VPtr zz p \<Rightarrow> (case setField env zz v of (q, e) \<Rightarrow> (VPtr zz (Some q), e))
            | _ \<Rightarrow> setField env z v) of
        (elem, Some e) \<Rightarrow> ([], Some (ErrSliceElem i e))
      | (elem, None) \<Rightarrow>
          (case setSliceElems env z vs (Suc i) of (rest, e) \<Rightarrow> (elem # rest, e)))"
| "setStruct env fs value =
     (case value of
        RMap structMap \<Rightarrow>
          (case setStructFields env structMap fs of (fs', e) \<Rightarrow> (VStruct fs', e))
      | _ \<Rightarrow> (VStruct fs, Some ErrStructValue))"
| "setStructFields env structMap [] = ([], None)"
| "setStructFields env structMap (SField name t nestedField # rest) =
     (let tagValue = (if Get t body = [] then Get t jjson else Get t body) in
      case (if tagValue \<noteq> [] then map_of structMap tagValue else None) of
        None \<Rightarrow>
          (case setStructFields env structMap rest of
             (rest', e) \<Rightarrow> (SField name t nestedField # rest', e))
      | Some nestedVal \<Rightarrow>
          (case setField env nestedField nestedVal of
             (q, Some e) \<Rightarrow> (SField name t q # rest, Some (ErrStructField name e))
           | (q, None) \<Rightarrow>
               (case setStructFields env structMap rest of
                  (rest', e) \<Rightarrow> (SField name t q # rest', e))))"

  by pat_completeness auto
termination
  by (relation "inv_image (less_than <*lex*> less_than)
        (case_sum
           (case_sum (\<lambda>(env, f, v). (4 * size f + 1, 0))
              (case_sum (\<lambda>(env, f, v). (4 * size f, 0))
                 (\<lambda>(env, z, xs, v). (4 * size z + 3, 0))))
           (case_sum (\<lambda>(env, z, vs, i). (4 * size z + 2, length vs))
              (case_sum (\<lambda>(env, fs, v). (4 * size_list size fs + 3, 0))
                 (\<lambda>(env, m, fs). (4 * size_list size fs + 2, 0)))))")
    auto

section \<open>Binding a nested struct from a map: BindStruct\<close>

text \<open>\<^verbatim>\<open>if f.Kind() == reflect.Ptr && f.IsNil() { f.Set(reflect.New(f.Type().Elem())) }\<close>\<close>

definition initPtr :: "'f gval \<Rightarrow> 'f gval" where
  "initPtr f = (case f of VPtr z None \<Rightarrow> VPtr z (Some z) | _ \<Rightarrow> f)"

text \<open>The field loop of \<^verbatim>\<open>BindStruct\<close>.\<close>

fun bindStructFields :: "'f env \<Rightarrow> (string \<times> 'f raw) list \<Rightarrow> 'f sfield list \<Rightarrow> 'f sfield list \<times> error option" where
  "bindStructFields env data [] = ([], None)"
| "bindStructFields env data (SField name t nestedField # rest) =
     (let tg = (if Get t body = [] then Get t jjson else Get t body) in
      case (if tg = [] then None else map_of data tg) of
        None \<Rightarrow>
          (case bindStructFields env data rest of
             (rest', e) \<Rightarrow> (SField name t nestedField # rest', e))
      | Some nestedValue \<Rightarrow>
          (case setField env (initPtr nestedField) nestedValue of
             (q, Some e) \<Rightarrow> (SField name t q # rest, Some (ErrSetNested name e))
           | (q, None) \<Rightarrow>
               (case bindStructFields env data rest of
                  (rest', e) \<Rightarrow> (SField name t q # rest', e))))"

text \<open>
  \<^verbatim>\<open>target.Type().NumField()\<close> needs a target of kind struct and panics on any other;
  \<^verbatim>\<open>Bind\<close> only passes a struct or a pointer to one.
\<close>

fun bindTarget :: "'f env \<Rightarrow> 'f gval \<Rightarrow> (string \<times> 'f raw) list \<Rightarrow> 'f gval \<times> error option" where
  "bindTarget env (VStruct fs) data =
     (case bindStructFields env data fs of (fs', e) \<Rightarrow> (VStruct fs', e))"
| "bindTarget env (VNamed n u) data =
     (case bindTarget env u data of (u', e) \<Rightarrow> (VNamed n u', e))"
| "bindTarget env target data = (target, Some (Panic ''reflect: NumField of non-struct type''))"

definition BindStruct :: "'f env \<Rightarrow> 'f gval \<Rightarrow> (string \<times> 'f raw) list \<Rightarrow> 'f gval \<times> error option" where
  "BindStruct env field data =
     (case field of
        VPtr z p \<Rightarrow>
          (case bindTarget env (case p of None \<Rightarrow> z | Some target \<Rightarrow> target) data of
             (target', e) \<Rightarrow> (VPtr z (Some target'), e))
      | _ \<Rightarrow> bindTarget env field data)"

section \<open>Binding one field of the destination\<close>

text \<open>\<^verbatim>\<open>isEmptyValue\<close> on a raw value.\<close>

definition isEmptyValue :: "'f env \<Rightarrow> 'f raw \<Rightarrow> bool" where
  "isEmptyValue env v =
     (case v of
        RNil \<Rightarrow> True
      | RString s \<Rightarrow> s = []
      | RFloat64 x \<Rightarrow> floatIsZero env x
      | RBool b \<Rightarrow> \<not> b
      | RSlice xs \<Rightarrow> xs = []
      | RMap m \<Rightarrow> m = []
      | RStrings xs \<Rightarrow> xs = [])"

text \<open>
  The switch of \<^verbatim>\<open>Bind\<close>: the raw value \<open>v\<close> and the flag \<open>exists\<close> of a field with tag
  \<open>t\<close>, read from the request \<open>r\<close> and the body map \<open>b\<close>; \<open>None\<close> is the default arm, a
  field with none of the five markers.
\<close>

definition resolve :: "request \<Rightarrow> (string \<times> 'f raw) list \<Rightarrow> tag \<Rightarrow> ('f raw \<times> bool) option" where
  "resolve r b t =
     (let pathTag = Get t path; queryTag = Get t query; bodyTag = Get t body;
          jsonTag = Get t jjson; cookieTag = Get t cookie
      in if pathTag \<noteq> [] then
           Some (RString (PathValue r pathTag), PathValue r pathTag \<noteq> [])
         else if queryTag \<noteq> [] then
           (let paramName = takeWhile (\<lambda>c. c \<noteq> CHR '','') queryTag
            in Some (RString (QueryGet r paramName), QueryGet r paramName \<noteq> []))
         else if bodyTag \<noteq> [] then
           Some (case map_of b bodyTag of None \<Rightarrow> (RNil, False) | Some v \<Rightarrow> (v, True))
         else if jsonTag \<noteq> [] then
           Some (case map_of b jsonTag of None \<Rightarrow> (RNil, False) | Some v \<Rightarrow> (v, True))
         else if cookieTag \<noteq> [] then
           Some (case Cookie r cookieTag of None \<Rightarrow> (RNil, False) | Some c \<Rightarrow> (RString c, True))
         else None)"

text \<open>Line 157 of the source: \<^verbatim>\<open>omitempty\<close> is looked for in the five marker values joined.\<close>

definition omitEmpty :: "tag \<Rightarrow> bool" where
  "omitEmpty t =
     Contains (Get t path @ Get t query @ Get t body @ Get t jjson @ Get t cookie) ''omitempty''"

text \<open>\<^verbatim>\<open>f.Kind() == reflect.Struct || (f.Kind() == reflect.Ptr && f.Elem().Kind() == reflect.Struct)\<close>\<close>

definition isNested :: "'f gval \<Rightarrow> bool" where
  "isNested f = (case f of VPtr z (Some elem) \<Rightarrow> isStructKind elem | VPtr z None \<Rightarrow> False | _ \<Rightarrow> isStructKind f)"

text \<open>
  The body of \<^verbatim>\<open>Bind\<close>'s loop for one field: the field as the iteration leaves it, and
  the error with which \<^verbatim>\<open>Bind\<close> returns, if it does.
\<close>

definition nestedMapFor :: "'f gval \<Rightarrow> 'f raw \<Rightarrow> (string \<times> 'f raw) list option" where
  "nestedMapFor f v =
     (if isNested f then (case v of RMap nestedMap \<Rightarrow> Some nestedMap | _ \<Rightarrow> None) else None)"

definition bindField :: "'f env \<Rightarrow> request \<Rightarrow> (string \<times> 'f raw) list \<Rightarrow> 'f sfield \<Rightarrow> 'f sfield \<times> error option" where
  "bindField env r b field =
     (case resolve r b (Tag field) of
        None \<Rightarrow> (field, None)
      | Some (v, exists) \<Rightarrow>
          (if \<not> exists \<or> (omitEmpty (Tag field) \<and> isEmptyValue env v) then (field, None)
           else
             (case nestedMapFor (initPtr (Val field)) v of
                Some nestedMap \<Rightarrow>
                  (case BindStruct env (initPtr (Val field)) nestedMap of
                     (f', e) \<Rightarrow>
                       (SField (Name field) (Tag field) f',
                        map_option (ErrBindNested (Name field)) e))
              | None \<Rightarrow>
                  (case setField env (initPtr (Val field)) v of
                     (f', e) \<Rightarrow>
                       (SField (Name field) (Tag field) f',
                        map_option (ErrSetField (Name field)) e)))))"

text \<open>The loop over the fields in declaration order; it stops at the first error.\<close>

fun bindFields :: "'f env \<Rightarrow> request \<Rightarrow> (string \<times> 'f raw) list \<Rightarrow> 'f sfield list \<Rightarrow> 'f sfield list \<times> error option" where
  "bindFields env r b [] = ([], None)"
| "bindFields env r b (field # rest) =
     (case bindField env r b field of
        (field', Some e) \<Rightarrow> (field' # rest, Some e)
      | (field', None) \<Rightarrow>
          (case bindFields env r b rest of (rest', e) \<Rightarrow> (field' # rest', e)))"

section \<open>The request body\<close>

text \<open>
  \<^verbatim>\<open>parseContentType\<close>: the header is split at each \<^verbatim>\<open>;\<close>, and the first part that,
  trimmed, holds no \<^verbatim>\<open>=\<close> is returned in lower case.
\<close>

fun Split :: "char \<Rightarrow> string \<Rightarrow> string list" where
  "Split sep [] = [[]]"
| "Split sep (c # cs) =
     (if c = sep then [] # Split sep cs
      else case Split sep cs of [] \<Rightarrow> [[c]] | p # ps \<Rightarrow> (c # p) # ps)"

fun firstPart :: "'f env \<Rightarrow> string list \<Rightarrow> string" where
  "firstPart env [] = []"
| "firstPart env (part # rest) =
     (if \<not> Contains (TrimSpace env part) ''='' then ToLower env (TrimSpace env part)
      else firstPart env rest)"

definition parseContentType :: "'f env \<Rightarrow> string \<Rightarrow> string" where
  "parseContentType env header = firstPart env (Split CHR '';'' header)"

text \<open>
  \<^verbatim>\<open>parseBody\<close>, which \<^verbatim>\<open>Bind\<close> only calls on a request with a body. A form field
  given once becomes a string, any other number of values stays a \<^verbatim>\<open>[]string\<close>.
\<close>

definition parseBody :: "'f env \<Rightarrow> request \<Rightarrow> error + (string \<times> 'f raw) list" where
  "parseBody env r =
     (let ct = parseContentType env (ContentType r) in
      if ct = ''application/json'' then
        (case jsonDecode env (case Body r of None \<Rightarrow> [] | Some s \<Rightarrow> pending s) of
           Inl e \<Rightarrow> Inl (ErrDecodeJSON e)
         | Inr reqBody \<Rightarrow> Inr reqBody)
      else if ct = ''application/x-www-form-urlencoded'' then
        (case parsePostForm env r of
           Inl e \<Rightarrow> Inl (ErrParseForm e)
         | Inr postForm \<Rightarrow>
             Inr (map (\<lambda>(k, v). (k, case v of [x] \<Rightarrow> RString x | _ \<Rightarrow> RStrings v)) postForm))
      else Inr [])"

section \<open>The field metadata cache: getFieldInfo\<close>

text \<open>
  The package-level variable \<^verbatim>\<open>fieldCache\<close> maps a struct type, given by its fields, to
  the metadata of its fields by name. The lock only matters to concurrent callers; one
  call looks the type up, and builds and stores the entry when it is not there.
\<close>

record 'f fieldInfo =
  Index :: nat
  FieldType :: "'f sfield"
  Source :: string
  TagName :: string
  OmitEmpty :: bool

type_synonym 'f cache = "'f sfield list \<Rightarrow> (string \<Rightarrow> 'f fieldInfo option) option"

definition mkInfo :: "nat \<Rightarrow> 'f sfield \<Rightarrow> string \<Rightarrow> 'f fieldInfo" where
  "mkInfo i field src =
     \<lparr>Index = i, FieldType = field, Source = src, TagName = Get (Tag field) src,
      OmitEmpty = Contains (Get (Tag field) src) ''omitempty''\<rparr>"

fun buildInfo :: "nat \<Rightarrow> 'f sfield list \<Rightarrow> (string \<Rightarrow> 'f fieldInfo option) \<Rightarrow> (string \<Rightarrow> 'f fieldInfo option)" where
  "buildInfo i [] info = info"
| "buildInfo i (field # rest) info =
     buildInfo (Suc i) rest
       (if Get (Tag field) path \<noteq> [] then info(Name field \<mapsto> mkInfo i field path)
        else if Get (Tag field) query \<noteq> [] then info(Name field \<mapsto> mkInfo i field query)
        else if Get (Tag field) body \<noteq> [] then info(Name field \<mapsto> mkInfo i field body)
        else if Get (Tag field) jjson \<noteq> [] then info(Name field \<mapsto> mkInfo i field jjson)
        else if Get (Tag field) cookie \<noteq> [] then info(Name field \<mapsto> mkInfo i field cookie)
        else info)"

definition getFieldInfo :: "'f cache \<Rightarrow> 'f sfield list \<Rightarrow> (string \<Rightarrow> 'f fieldInfo option) \<times> 'f cache" where
  "getFieldInfo fieldCache typ =
     (case fieldCache typ of
        Some info \<Rightarrow> (info, fieldCache)
      | None \<Rightarrow>
          (let info = buildInfo 0 typ Map.empty in (info, fieldCache(typ \<mapsto> info))))"

section \<open>Bind\<close>

text \<open>
  The state \<^verbatim>\<open>Bind\<close> works on is the package's cache, the request and the destination
  record behind the pointer \<^verbatim>\<open>i\<close>. The outcome is that state as the call leaves it, the
  records \<^verbatim>\<open>Validate\<close> was called on, in order, and the error returned (\<open>None\<close>: nil).
\<close>

record 'f outcome =
  cacheAfter :: "'f cache"
  requestAfter :: request
  target :: "'f sfield list"
  validated :: "'f sfield list list"
  returned :: "error option"

text \<open>The loop over the fields and the call of \<^verbatim>\<open>Validate\<close>, with the body map \<open>b\<close>.\<close>

definition bindWith :: "'f env \<Rightarrow> 'f cache \<Rightarrow> request \<Rightarrow> (string \<times> 'f raw) list \<Rightarrow> 'f sfield list \<Rightarrow> 'f outcome" where
  "bindWith env fieldCache r b i =
     (case bindFields env r b i of
        (i', Some e) \<Rightarrow>
          \<lparr>cacheAfter = fieldCache, requestAfter = r, target = i', validated = [], returned = Some e\<rparr>
      | (i', None) \<Rightarrow>
          (case validate env of
             None \<Rightarrow>
               \<lparr>cacheAfter = fieldCache, requestAfter = r, target = i', validated = [], returned = None\<rparr>
           | Some Validate \<Rightarrow>
               \<lparr>cacheAfter = fieldCache, requestAfter = r, target = i', validated = [i'],
                returned = map_option (\<lambda>e. ErrValidation (ErrUser e)) (Validate i')\<rparr>))"

text \<open>
  Lines 117 to 143: the request as this part leaves it, and the body map, or the error
  of \<^verbatim>\<open>io.ReadAll\<close>. A stream restored from the bytes read holds those bytes and cannot fail.
\<close>

definition readBody :: "'f env \<Rightarrow> request \<Rightarrow> request \<times> (error + (string \<times> 'f raw) list)" where
  "readBody env r =
     (case Body r of
        None \<Rightarrow> (r, Inr [])
      | Some (Stream bodyBytes readErr) \<Rightarrow>
          if ContentLength r > 0 then
            (case readErr of
               Some e \<Rightarrow> (r\<lparr>Body := Some (Stream [] (Some e))\<rparr>, Inl (ErrReadBody e))
             | None \<Rightarrow>
                 (let r' = r\<lparr>Body := Some (Stream bodyBytes None)\<rparr>;
                      rCopy = r'\<lparr>Body := Some (Stream bodyBytes None)\<rparr>
                  in (r', Inr (case parseBody env rCopy of Inl e \<Rightarrow> [] | Inr b \<Rightarrow> b))))
          else (r, Inr []))"

definition Bind :: "'f env \<Rightarrow> 'f cache \<Rightarrow> request \<Rightarrow> 'f sfield list \<Rightarrow> 'f outcome" where
  "Bind env fieldCache r i =
     (case readBody env r of
        (r', Inl e) \<Rightarrow>
          \<lparr>cacheAfter = fieldCache, requestAfter = r', target = i, validated = [], returned = Some e\<rparr>
      | (r', Inr b) \<Rightarrow> bindWith env fieldCache r' b i)"

section \<open>An environment and a request for examples\<close>

text \<open>
  In the examples whole numbers stand for float64 values, the JSON decoder and the
  \<^verbatim>\<open>Validate\<close> method are given, and no type has a text conversion of its own. The
  headers of the examples are ASCII text, on which \<^verbatim>\<open>strings.TrimSpace\<close> removes the
  six ASCII white-space characters at both ends and \<^verbatim>\<open>strings.ToLower\<close> maps the
  letters A to Z to a to z.
\<close>

definition isSpace :: "char \<Rightarrow> bool" where
  "isSpace c = (c \<in> set [CHR 0x09, CHR 0x0A, CHR 0x0B, CHR 0x0C, CHR 0x0D, CHR 0x20])"

definition asciiTrimSpace :: "string \<Rightarrow> string" where
  "asciiTrimSpace s = rev (dropWhile isSpace (rev (dropWhile isSpace s)))"

definition lowerChar :: "char \<Rightarrow> char" where
  "lowerChar c =
     (case map_of (zip ''ABCDEFGHIJKLMNOPQRSTUVWXYZ'' ''abcdefghijklmnopqrstuvwxyz'') c of
        None \<Rightarrow> c
      | Some l \<Rightarrow> l)"

definition asciiToLower :: "string \<Rightarrow> string" where
  "asciiToLower s = map lowerChar s"

definition exampleEnv ::
  "(string \<Rightarrow> string + (string \<times> int raw) list) \<Rightarrow> (int sfield list \<Rightarrow> string option) option \<Rightarrow> int env" where
  "exampleEnv decode v =
     \<lparr>jsonDecode = decode, parsePostForm = (\<lambda>r. Inr []),
      TrimSpace = asciiTrimSpace, ToLower = asciiToLower, fmtV = (\<lambda>v. ''?''),
      floatToInt64 = (\<lambda>x. x), floatToUint64 = (\<lambda>x. x), floatNegative = (\<lambda>x. x < 0),
      floatIsZero = (\<lambda>x. x = 0), floatTo32 = (\<lambda>x. x), parseFloat = (\<lambda>s. Inl (ErrSyntax s)),
      unmarshalText = (\<lambda>n p s. (p, None)), validate = v\<rparr>"

definition exampleRequest :: "string \<Rightarrow> int \<Rightarrow> stream option \<Rightarrow> request" where
  "exampleRequest ct n b =
     \<lparr>Method = ''POST'', PathValues = [(''id'', ''7'')], URLQuery = [(''name'', [''ann''])],
      Cookies = [(''token'', ''abc'')], ContentType = ct, ContentLength = n, Body = b\<rparr>"

definition emptyCache :: "int cache" where
  "emptyCache = (\<lambda>typ. None)"

text \<open>The \<^verbatim>\<open>Validate\<close> method of the example in the \<^verbatim>\<open>Validator\<close> doc comment.\<close>

definition adultOnly :: "int sfield list \<Rightarrow> string option" where
  "adultOnly fs =
     (case fs of
        [SField n t (VInt bits age)] \<Rightarrow> if age < 18 then Some ''user must be 18 or older'' else None
      | _ \<Rightarrow> None)"

section \<open>The modifier as the specification words it\<close>

text \<open>
  The specification reads a marker value as a comma-separated list: the key is the
  segment before the first comma and the modifiers are the segments after it; the
  winning marker of a field is the first of the five, in the fixed order, whose value
  is not empty. These three definitions follow those words and are compared below with
  what \<^verbatim>\<open>Bind\<close> computes.
\<close>

definition specWinningMarker :: "tag \<Rightarrow> string option" where
  "specWinningMarker t = find (\<lambda>s. Get t s \<noteq> []) sources"

definition specModifiers :: "string \<Rightarrow> string list" where
  "specModifiers v = tl (Split CHR '','' v)"

definition specOmitEmpty :: "tag \<Rightarrow> bool" where
  "specOmitEmpty t =
     (case specWinningMarker t of
        None \<Rightarrow> False
      | Some s \<Rightarrow> ''omitempty'' \<in> set (specModifiers (Get t s)))"

section \<open>Facts about the markers and the field loop\<close>

lemma PathValue_Body_update [simp]: "PathValue (r\<lparr>Body := x\<rparr>) = PathValue r"
  by (rule ext) (simp add: PathValue_def)

lemma QueryGet_Body_update [simp]: "QueryGet (r\<lparr>Body := x\<rparr>) = QueryGet r"
  by (rule ext) (simp add: QueryGet_def)

lemma Cookie_Body_update [simp]: "Cookie (r\<lparr>Body := x\<rparr>) = Cookie r"
  by (rule ext) (simp add: Cookie_def)

lemma resolve_Body_update [simp]: "resolve (r\<lparr>Body := x\<rparr>) b t = resolve r b t"
  by (simp add: resolve_def Let_def cong: if_cong)

lemma bindField_Body_update [simp]: "bindField env (r\<lparr>Body := x\<rparr>) b f = bindField env r b f"
  by (simp add: bindField_def)

lemma bindFields_Body_update [simp]: "bindFields env (r\<lparr>Body := x\<rparr>) b i = bindFields env r b i"
  by (induction i) simp_all

lemma bindField_error_names_field:
  assumes "bindField env r b f = (f', Some e)"
  shows "\<exists>e'. e = ErrSetField (Name f) e' \<or> e = ErrBindNested (Name f) e'"
  using assms
  by (auto simp: bindField_def split: option.splits prod.splits if_splits)


lemma bindFields_append_failure:
  assumes "bindFields env r b pre = (pre', None)" and "bindField env r b f = (f', Some e)"
  shows "bindFields env r b (pre @ f # post) = (pre' @ f' # post, Some e)"
  using assms
proof (induction pre arbitrary: pre')
  case Nil
  then show ?case by simp
next
  case (Cons g pre)
  then show ?case
    by (auto split: prod.splits option.splits)
qed

lemma Get_single [simp]: "Get [(s, v)] k = (if k = s then v else [])"
  by (simp add: Get_def)

lemma markers_distinct [simp]:
  "path \<noteq> query" "path \<noteq> body" "path \<noteq> jjson" "path \<noteq> cookie"
  "query \<noteq> path" "query \<noteq> body" "query \<noteq> jjson" "query \<noteq> cookie"
  "body \<noteq> path" "body \<noteq> query" "body \<noteq> jjson" "body \<noteq> cookie"
  "jjson \<noteq> path" "jjson \<noteq> query" "jjson \<noteq> body" "jjson \<noteq> cookie"
  "cookie \<noteq> path" "cookie \<noteq> query" "cookie \<noteq> body" "cookie \<noteq> jjson"
  by (simp_all add: path_def query_def body_def jjson_def cookie_def)

lemma target_bindWith: "target (bindWith env c r b i) = fst (bindFields env r b i)"
  by (simp add: bindWith_def split: prod.splits option.splits)

lemma requestAfter_bindWith: "requestAfter (bindWith env c r b i) = r"
  by (simp add: bindWith_def split: prod.splits option.splits)







lemma readBody_positive:
  assumes "Body r = Some (Stream bodyBytes None)" and "0 < ContentLength r"
  shows "readBody env r = (r, Inr (case parseBody env r of Inl e \<Rightarrow> [] | Inr b \<Rightarrow> b))"
proof -
  have same: "r\<lparr>Body := Some (Stream bodyBytes None)\<rparr> = r"
    using assms(1) by (cases r) simp
  show ?thesis
    using assms by (simp add: readBody_def Let_def same)
qed

lemma readBody_absent:
  assumes "Body r = None \<or> ContentLength r \<le> 0"
  shows "readBody env r = (r, Inr [])"
  using assms by (auto simp: readBody_def split: option.splits stream.splits)

lemma bindFields_length: "length (fst (bindFields env r b i)) = length i"
  by (induction i) (auto split: prod.splits option.splits)

lemma bindFields_nth_unchanged:
  assumes "k < length i" and "bindField env r b (i ! k) = (i ! k, None)"
  shows "fst (bindFields env r b i) ! k = i ! k"
  using assms
proof (induction i arbitrary: k)
  case Nil
  then show ?case by simp
next
  case (Cons f i)
  show ?case
  proof (cases k)
    case 0
    with Cons.prems show ?thesis by (simp split: prod.splits option.splits)
  next
    case (Suc j)
    with Cons.prems have "fst (bindFields env r b i) ! j = i ! j"
      by (intro Cons.IH) simp_all
    with Suc show ?thesis by (auto split: prod.splits option.splits)
  qed
qed

lemma bindField_body_absent:
  assumes "Get (Tag f) path = []" and "Get (Tag f) query = []"
    and "Get (Tag f) body \<noteq> [] \<or> Get (Tag f) jjson \<noteq> []"
  shows "bindField env r [] f = (f, None)"
  using assms by (auto simp: bindField_def resolve_def Let_def)

text \<open>The definitions a concrete call is evaluated with.\<close>

lemmas eval_defs =
  Bind_def readBody_def bindWith_def bindField_def resolve_def omitEmpty_def
  isEmptyValue_def initPtr_def nestedMapFor_def isNested_def BindStruct_def
  parseBody_def parseContentType_def asciiTrimSpace_def isSpace_def asciiToLower_def lowerChar_def
  Contains_def sublist_Cons_right Get_def path_def query_def body_def jjson_def cookie_def
  PathValue_def QueryGet_def Cookie_def setInt_def setUint_def setBool_def setFloat_def
  toString_def setString_def ParseInt_def ParseUint_def ParseBool_def digit_def wrapInt_def wrapUint_def
  Let_def exampleRequest_def exampleEnv_def

section \<open>The lookup key of a marker with a modifier\<close>

text \<open>
  C1. The claim: for a marker value with a comma-appended modifier, the key looked up
  is the segment before the first comma, for every source and for the sub-fields of a
  nested struct. The code strips the modifier only in the query arm. Evaluated on a
  JSON body \<^verbatim>\<open>{"email":"a@b.io"}\<close>: a field marked \<^verbatim>\<open>body:"email,omitempty"\<close> is looked
  up under the whole marker value, finds nothing and keeps its old value, whereas the
  same field marked \<^verbatim>\<open>body:"email"\<close> is bound, and a field marked
  \<^verbatim>\<open>query:"name,omitempty"\<close> is bound from the query parameter \<^verbatim>\<open>name\<close>. Likewise on
  \<^verbatim>\<open>{"profile":{"email":"a@b.io"}}\<close> the sub-field \<^verbatim>\<open>body:"email,omitempty"\<close> of the
  nested struct \<^verbatim>\<open>body:"profile"\<close> keeps its old value.
\<close>

theorem body_marker_lookup_keeps_modifier:
  \<open>target (Bind (exampleEnv (\<lambda>bytes. Inr [(''email'', RString ''a@b.io'')]) None) emptyCache
      (exampleRequest ''application/json'' 18 (Some (Stream ''{"email":"a@b.io"}'' None)))
      [SField ''Email'' [(''body'', ''email,omitempty'')] (VString [])])
     = [SField ''Email'' [(''body'', ''email,omitempty'')] (VString [])]
   \<and> target (Bind (exampleEnv (\<lambda>bytes. Inr [(''email'', RString ''a@b.io'')]) None) emptyCache
      (exampleRequest ''application/json'' 18 (Some (Stream ''{"email":"a@b.io"}'' None)))
      [SField ''Email'' [(''body'', ''email'')] (VString [])])
     = [SField ''Email'' [(''body'', ''email'')] (VString ''a@b.io'')]
   \<and> target (Bind (exampleEnv (\<lambda>bytes. Inr []) None) emptyCache
      (exampleRequest [] 0 None)
      [SField ''Name'' [(''query'', ''name,omitempty'')] (VString [])])
     = [SField ''Name'' [(''query'', ''name,omitempty'')] (VString ''ann'')]
   \<and> target (Bind (exampleEnv (\<lambda>bytes. Inr [(''profile'', RMap [(''email'', RString ''a@b.io'')])]) None)
      emptyCache
      (exampleRequest ''application/json'' 30 (Some (Stream ''{"profile":{"email":"a@b.io"}}'' None)))
      [SField ''Profile'' [(''body'', ''profile'')]
         (VStruct [SField ''Email'' [(''body'', ''email,omitempty'')] (VString [])])])
     = [SField ''Profile'' [(''body'', ''profile'')]
         (VStruct [SField ''Email'' [(''body'', ''email,omitempty'')] (VString [])])]
   \<and> target (Bind (exampleEnv (\<lambda>bytes. Inr [(''profile'', RMap [(''email'', RString ''a@b.io'')])]) None)
      emptyCache
      (exampleRequest ''application/json'' 30 (Some (Stream ''{"profile":{"email":"a@b.io"}}'' None)))
      [SField ''Profile'' [(''body'', ''profile'')]
         (VStruct [SField ''Email'' [(''body'', ''email'')] (VString [])])])
     = [SField ''Profile'' [(''body'', ''profile'')]
         (VStruct [SField ''Email'' [(''body'', ''email'')] (VString ''a@b.io'')])]\<close>
  by (simp add: eval_defs)

section \<open>Where the omitempty modifier is looked for\<close>

text \<open>
  C2. The claim: a field is omit-empty exactly when \<^verbatim>\<open>omitempty\<close> is a modifier of its
  winning marker's value, whatever the losing markers hold. \<^verbatim>\<open>getFieldInfo\<close> reads the
  winning marker alone, but \<^verbatim>\<open>Bind\<close> (line 157) looks for the text in the five marker
  values joined. Evaluated on a JSON body \<^verbatim>\<open>{"active":false}\<close> and a field
  \<^verbatim>\<open>body:"active" json:"active,omitempty"\<close> that holds \<open>True\<close>: the winning marker is
  \<^verbatim>\<open>body\<close>, its value has no modifier, and \<^verbatim>\<open>getFieldInfo\<close> records
  \<open>OmitEmpty = False\<close>; \<^verbatim>\<open>Bind\<close> nevertheless takes the field for omit-empty because of
  the losing \<^verbatim>\<open>json\<close> marker, skips the value and leaves the field \<open>True\<close>, whereas the
  same field without the \<^verbatim>\<open>json\<close> marker is set to \<open>False\<close>. Joining the values even
  makes \<^verbatim>\<open>body:"omit" json:"empty"\<close> omit-empty, where no marker holds the text.
\<close>

theorem omitEmpty_read_from_losing_marker:
  \<open>specWinningMarker [(''body'', ''active''), (''json'', ''active,omitempty'')] = Some body
   \<and> \<not> specOmitEmpty [(''body'', ''active''), (''json'', ''active,omitempty'')]
   \<and> map_option OmitEmpty
        (fst (getFieldInfo emptyCache
           [SField ''Active'' [(''body'', ''active''), (''json'', ''active,omitempty'')] (VBool True)])
         ''Active'') = Some False
   \<and> omitEmpty [(''body'', ''active''), (''json'', ''active,omitempty'')]
   \<and> target (Bind (exampleEnv (\<lambda>bytes. Inr [(''active'', RBool False)]) None) emptyCache
        (exampleRequest ''application/json'' 16 (Some (Stream ''{"active":false}'' None)))
        [SField ''Active'' [(''body'', ''active''), (''json'', ''active,omitempty'')] (VBool True)])
      = [SField ''Active'' [(''body'', ''active''), (''json'', ''active,omitempty'')] (VBool True)]
   \<and> target (Bind (exampleEnv (\<lambda>bytes. Inr [(''active'', RBool False)]) None) emptyCache
        (exampleRequest ''application/json'' 16 (Some (Stream ''{"active":false}'' None)))
        [SField ''Active'' [(''body'', ''active'')] (VBool True)])
      = [SField ''Active'' [(''body'', ''active'')] (VBool False)]
   \<and> \<not> specOmitEmpty [(''body'', ''omit''), (''json'', ''empty'')]
   \<and> omitEmpty [(''body'', ''omit''), (''json'', ''empty'')]\<close>
  by (simp add: specWinningMarker_def specOmitEmpty_def specModifiers_def sources_def
      getFieldInfo_def emptyCache_def mkInfo_def eval_defs)

section \<open>Precedence of the markers\<close>




section \<open>A body that cannot be decoded\<close>



section \<open>The body after Bind\<close>

text \<open>
  C5. For a request whose body is readable and whose declared length is positive, the
  request \<^verbatim>\<open>Bind\<close> leaves behind has a body stream that yields exactly the bytes the
  original did, whatever else the call does; so reading the body for a second bind,
  of any destination, gives the same body map, and that bind does what it would have
  done on the original request.
\<close>

theorem body_restored_after_Bind:
  assumes "Body r = Some (Stream bodyBytes None)" and "0 < ContentLength r"
  shows "Body (requestAfter (Bind env c r i)) = Some (Stream bodyBytes None)
       \<and> requestAfter (Bind env c r i) = r
       \<and> readBody env' (requestAfter (Bind env c r i)) = readBody env' r
       \<and> Bind env' c' (requestAfter (Bind env c r i)) i' = Bind env' c' r i'"
proof -
  have "requestAfter (Bind env c r i) = r"
    by (simp add: Bind_def readBody_positive [OF assms] requestAfter_bindWith)
  then show ?thesis using assms(1) by simp
qed

theorem body_restored_after_Bind_witness:
  \<open>Body (exampleRequest ''application/json'' 18 (Some (Stream ''{"email":"a@b.io"}'' None)))
     = Some (Stream ''{"email":"a@b.io"}'' None)
   \<and> 0 < ContentLength (exampleRequest ''application/json'' 18 (Some (Stream ''{"email":"a@b.io"}'' None)))
   \<and> (Body (requestAfter (Bind (exampleEnv (\<lambda>bytes. Inr [(''email'', RString ''a@b.io'')]) None) emptyCache
         (exampleRequest ''application/json'' 18 (Some (Stream ''{"email":"a@b.io"}'' None)))
         [SField ''Email'' [(''body'', ''email'')] (VString [])]))
       = Some (Stream ''{"email":"a@b.io"}'' None)
     \<and> requestAfter (Bind (exampleEnv (\<lambda>bytes. Inr [(''email'', RString ''a@b.io'')]) None) emptyCache
         (exampleRequest ''application/json'' 18 (Some (Stream ''{"email":"a@b.io"}'' None)))
         [SField ''Email'' [(''body'', ''email'')] (VString [])])
       = exampleRequest ''application/json'' 18 (Some (Stream ''{"email":"a@b.io"}'' None))
     \<and> readBody (exampleEnv (\<lambda>bytes. Inr [(''email'', RString ''a@b.io'')]) None)
         (requestAfter (Bind (exampleEnv (\<lambda>bytes. Inr [(''email'', RString ''a@b.io'')]) None) emptyCache
           (exampleRequest ''application/json'' 18 (Some (Stream ''{"email":"a@b.io"}'' None)))
           [SField ''Email'' [(''body'', ''email'')] (VString [])]))
       = readBody (exampleEnv (\<lambda>bytes. Inr [(''email'', RString ''a@b.io'')]) None)
           (exampleRequest ''application/json'' 18 (Some (Stream ''{"email":"a@b.io"}'' None)))
     \<and> Bind (exampleEnv (\<lambda>bytes. Inr [(''email'', RString ''a@b.io'')]) None) emptyCache
         (requestAfter (Bind (exampleEnv (\<lambda>bytes. Inr [(''email'', RString ''a@b.io'')]) None) emptyCache
           (exampleRequest ''application/json'' 18 (Some (Stream ''{"email":"a@b.io"}'' None)))
           [SField ''Email'' [(''body'', ''email'')] (VString [])]))
         [SField ''Contact'' [(''json'', ''email'')] (VPtr (VString []) None)]
       = Bind (exampleEnv (\<lambda>bytes. Inr [(''email'', RString ''a@b.io'')]) None) emptyCache
           (exampleRequest ''application/json'' 18 (Some (Stream ''{"email":"a@b.io"}'' None)))
           [SField ''Contact'' [(''json'', ''email'')] (VPtr (VString []) None)])\<close>
proof -
  let ?r = \<open>exampleRequest ''application/json'' 18 (Some (Stream ''{"email":"a@b.io"}'' None))\<close>
  have h1: \<open>Body ?r = Some (Stream ''{"email":"a@b.io"}'' None)\<close>
    by (simp add: exampleRequest_def)
  have h2: "0 < ContentLength ?r"
    by (simp add: exampleRequest_def)
  show ?thesis
    by (intro conjI [OF h1] conjI [OF h2]) (rule body_restored_after_Bind [OF h1 h2])
qed

section \<open>A field that cannot be coerced\<close>

text \<open>
  C6. When the body has been read, the fields before some field have been bound
  without error and that field fails, \<^verbatim>\<open>Bind\<close> returns that field's error, which wraps
  the cause under the field's declared name; the fields before it keep the values
  just bound, the fields after it are as they were, and \<^verbatim>\<open>Validate\<close> is not called.
\<close>

theorem field_failure_aborts_Bind:
  assumes "readBody env r = (r', Inr b)"
    and "bindFields env r' b pre = (pre', None)"
    and "bindField env r' b f = (f', Some e)"
  shows "returned (Bind env c r (pre @ f # post)) = Some e
       \<and> (\<exists>e'. e = ErrSetField (Name f) e' \<or> e = ErrBindNested (Name f) e')
       \<and> target (Bind env c r (pre @ f # post)) = pre' @ f' # post
       \<and> validated (Bind env c r (pre @ f # post)) = []"
proof -
  have "bindFields env r' b (pre @ f # post) = (pre' @ f' # post, Some e)"
    using assms(2,3) by (rule bindFields_append_failure)
  then show ?thesis
    using assms(1) bindField_error_names_field [OF assms(3)]
    by (simp add: Bind_def bindWith_def)
qed

theorem field_failure_aborts_Bind_witness:
  \<open>readBody (exampleEnv (\<lambda>bytes. Inr [(''age'', RString ''abc''), (''city'', RString ''Rome'')])
        (Some (\<lambda>fs. Some ''never asked'')))
      (exampleRequest ''application/json'' 27 (Some (Stream ''{"age":"abc","city":"Rome"}'' None)))
     = (exampleRequest ''application/json'' 27 (Some (Stream ''{"age":"abc","city":"Rome"}'' None)),
        Inr [(''age'', RString ''abc''), (''city'', RString ''Rome'')])
   \<and> bindFields (exampleEnv (\<lambda>bytes. Inr [(''age'', RString ''abc''), (''city'', RString ''Rome'')])
        (Some (\<lambda>fs. Some ''never asked'')))
      (exampleRequest ''application/json'' 27 (Some (Stream ''{"age":"abc","city":"Rome"}'' None)))
      [(''age'', RString ''abc''), (''city'', RString ''Rome'')]
      [SField ''ID'' [(''path'', ''id'')] (VInt 64 0)]
     = ([SField ''ID'' [(''path'', ''id'')] (VInt 64 7)], None)
   \<and> bindField (exampleEnv (\<lambda>bytes. Inr [(''age'', RString ''abc''), (''city'', RString ''Rome'')])
        (Some (\<lambda>fs. Some ''never asked'')))
      (exampleRequest ''application/json'' 27 (Some (Stream ''{"age":"abc","city":"Rome"}'' None)))
      [(''age'', RString ''abc''), (''city'', RString ''Rome'')]
      (SField ''Age'' [(''body'', ''age'')] (VPtr (VInt 64 0) None))
     = (SField ''Age'' [(''body'', ''age'')] (VPtr (VInt 64 0) (Some (VInt 64 0))),
        Some (ErrSetField ''Age'' (ErrSyntax ''abc'')))
   \<and> (returned (Bind (exampleEnv (\<lambda>bytes. Inr [(''age'', RString ''abc''), (''city'', RString ''Rome'')])
          (Some (\<lambda>fs. Some ''never asked''))) emptyCache
        (exampleRequest ''application/json'' 27 (Some (Stream ''{"age":"abc","city":"Rome"}'' None)))
        ([SField ''ID'' [(''path'', ''id'')] (VInt 64 0)]
         @ SField ''Age'' [(''body'', ''age'')] (VPtr (VInt 64 0) None)
         # [SField ''City'' [(''body'', ''city'')] (VString [])]))
       = Some (ErrSetField ''Age'' (ErrSyntax ''abc''))
     \<and> (\<exists>e'. ErrSetField ''Age'' (ErrSyntax ''abc'')
               = ErrSetField (Name (SField ''Age'' [(''body'', ''age'')] (VPtr (VInt 64 0) None :: int gval))) e'
            \<or> ErrSetField ''Age'' (ErrSyntax ''abc'')
               = ErrBindNested (Name (SField ''Age'' [(''body'', ''age'')] (VPtr (VInt 64 0) None :: int gval))) e')
     \<and> target (Bind (exampleEnv (\<lambda>bytes. Inr [(''age'', RString ''abc''), (''city'', RString ''Rome'')])
          (Some (\<lambda>fs. Some ''never asked''))) emptyCache
        (exampleRequest ''application/json'' 27 (Some (Stream ''{"age":"abc","city":"Rome"}'' None)))
        ([SField ''ID'' [(''path'', ''id'')] (VInt 64 0)]
         @ SField ''Age'' [(''body'', ''age'')] (VPtr (VInt 64 0) None)
         # [SField ''City'' [(''body'', ''city'')] (VString [])]))
       = [SField ''ID'' [(''path'', ''id'')] (VInt 64 7)]
         @ SField ''Age'' [(''body'', ''age'')] (VPtr (VInt 64 0) (Some (VInt 64 0)))
         # [SField ''City'' [(''body'', ''city'')] (VString [])]
     \<and> validated (Bind (exampleEnv (\<lambda>bytes. Inr [(''age'', RString ''abc''), (''city'', RString ''Rome'')])
          (Some (\<lambda>fs. Some ''never asked''))) emptyCache
        (exampleRequest ''application/json'' 27 (Some (Stream ''{"age":"abc","city":"Rome"}'' None)))
        ([SField ''ID'' [(''path'', ''id'')] (VInt 64 0)]
         @ SField ''Age'' [(''body'', ''age'')] (VPtr (VInt 64 0) None)
         # [SField ''City'' [(''body'', ''city'')] (VString [])]))
       = [])\<close>
proof -
  let ?env = "exampleEnv (\<lambda>bytes. Inr [(''age'', RString ''abc''), (''city'', RString ''Rome'')])
        (Some (\<lambda>fs. Some ''never asked''))"
  let ?r = \<open>exampleRequest ''application/json'' 27 (Some (Stream ''{"age":"abc","city":"Rome"}'' None))\<close>
  let ?b = "[(''age'', RString ''abc''), (''city'', RString ''Rome'')] :: (string \<times> int raw) list"
  have h1: "readBody ?env ?r = (?r, Inr ?b)"
    by (simp add: eval_defs)
  have h2: "bindFields ?env ?r ?b [SField ''ID'' [(''path'', ''id'')] (VInt 64 0)]
     = ([SField ''ID'' [(''path'', ''id'')] (VInt 64 7)], None)"
    by (simp add: eval_defs)
  have h3: "bindField ?env ?r ?b (SField ''Age'' [(''body'', ''age'')] (VPtr (VInt 64 0) None))
     = (SField ''Age'' [(''body'', ''age'')] (VPtr (VInt 64 0) (Some (VInt 64 0))),
        Some (ErrSetField ''Age'' (ErrSyntax ''abc'')))"
    by (simp add: eval_defs)
  note c = field_failure_aborts_Bind
    [OF h1 h2 h3, of emptyCache "[SField ''City'' [(''body'', ''city'')] (VString [])]"]
  show ?thesis
    by (rule conjI [OF h1 conjI [OF h2 conjI [OF h3 c]]])
qed

section \<open>Validation\<close>

text \<open>
  C7. When the body has been read, every field has been bound without error and the
  destination type is a \<^verbatim>\<open>Validator\<close>, \<^verbatim>\<open>Bind\<close> calls \<^verbatim>\<open>Validate\<close> exactly once, on the
  record with all bound values; the destination holds those values whatever
  \<^verbatim>\<open>Validate\<close> answers, and an error it returns is returned wrapped as a validation
  failure (no error gives nil).
\<close>

theorem Validate_called_once_after_fields:
  assumes "readBody env r = (r', Inr b)"
    and "bindFields env r' b i = (i', None)"
    and "validate env = Some V"
  shows "validated (Bind env c r i) = [i']
       \<and> target (Bind env c r i) = i'
       \<and> returned (Bind env c r i) = map_option (\<lambda>e. ErrValidation (ErrUser e)) (V i')"
  using assms by (simp add: Bind_def bindWith_def)

theorem Validate_called_once_after_fields_witness:
  \<open>readBody (exampleEnv (\<lambda>bytes. Inr [(''age'', RFloat64 16)]) (Some adultOnly))
      (exampleRequest ''application/json'' 10 (Some (Stream ''{"age":16}'' None)))
     = (exampleRequest ''application/json'' 10 (Some (Stream ''{"age":16}'' None)),
        Inr [(''age'', RFloat64 16)])
   \<and> bindFields (exampleEnv (\<lambda>bytes. Inr [(''age'', RFloat64 16)]) (Some adultOnly))
        (exampleRequest ''application/json'' 10 (Some (Stream ''{"age":16}'' None)))
        [(''age'', RFloat64 16)] [SField ''Age'' [(''body'', ''age'')] (VInt 64 0)]
     = ([SField ''Age'' [(''body'', ''age'')] (VInt 64 16)], None)
   \<and> validate (exampleEnv (\<lambda>bytes. Inr [(''age'', RFloat64 16)]) (Some adultOnly)) = Some adultOnly
   \<and> adultOnly [SField ''Age'' [(''body'', ''age'')] (VInt 64 16)] = Some ''user must be 18 or older''
   \<and> (validated (Bind (exampleEnv (\<lambda>bytes. Inr [(''age'', RFloat64 16)]) (Some adultOnly)) emptyCache
          (exampleRequest ''application/json'' 10 (Some (Stream ''{"age":16}'' None)))
          [SField ''Age'' [(''body'', ''age'')] (VInt 64 0)])
       = [[SField ''Age'' [(''body'', ''age'')] (VInt 64 16)]]
     \<and> target (Bind (exampleEnv (\<lambda>bytes. Inr [(''age'', RFloat64 16)]) (Some adultOnly)) emptyCache
          (exampleRequest ''application/json'' 10 (Some (Stream ''{"age":16}'' None)))
          [SField ''Age'' [(''body'', ''age'')] (VInt 64 0)])
       = [SField ''Age'' [(''body'', ''age'')] (VInt 64 16)]
     \<and> returned (Bind (exampleEnv (\<lambda>bytes. Inr [(''age'', RFloat64 16)]) (Some adultOnly)) emptyCache
          (exampleRequest ''application/json'' 10 (Some (Stream ''{"age":16}'' None)))
          [SField ''Age'' [(''body'', ''age'')] (VInt 64 0)])
       = map_option (\<lambda>e. ErrValidation (ErrUser e))
           (adultOnly [SField ''Age'' [(''body'', ''age'')] (VInt 64 16)]))\<close>
proof -
  let ?env = "exampleEnv (\<lambda>bytes. Inr [(''age'', RFloat64 16)]) (Some adultOnly)"
  let ?r = \<open>exampleRequest ''application/json'' 10 (Some (Stream ''{"age":16}'' None))\<close>
  have h1: "readBody ?env ?r = (?r, Inr [(''age'', RFloat64 16)])"
    by (simp add: eval_defs)
  have h2: "bindFields ?env ?r [(''age'', RFloat64 16)] [SField ''Age'' [(''body'', ''age'')] (VInt 64 0)]
     = ([SField ''Age'' [(''body'', ''age'')] (VInt 64 16)], None)"
    by (simp add: eval_defs)
  have h3: "validate ?env = Some adultOnly"
    by (simp add: exampleEnv_def)
  have h4: "adultOnly [SField ''Age'' [(''body'', ''age'')] (VInt 64 16)] = Some ''user must be 18 or older''"
    by (simp add: adultOnly_def)
  note c = Validate_called_once_after_fields [OF h1 h2 h3, of emptyCache]
  show ?thesis
    by (rule conjI [OF h1 conjI [OF h2 conjI [OF h3 conjI [OF h4 c]]]])
qed

section \<open>Array destinations\<close>

text \<open>
  C8, as amended. Coercing any raw value other than nil into a fixed-size array field
  (of a type without a text conversion of its own) fails with the error "arrays are not
  supported, use slices instead" and leaves the field as it was.
\<close>

theorem array_field_rejects_non_nil:
  assumes "value \<noteq> RNil"
  shows "setField env (VArray xs) value = (VArray xs, Some ErrArrays)
       \<and> (\<forall>r b n t. resolve r b t = Some (value, True)
              \<and> \<not> (omitEmpty t \<and> isEmptyValue env value)
            \<longrightarrow> bindField env r b (SField n t (VArray xs))
                = (SField n t (VArray xs), Some (ErrSetField n ErrArrays)))"
  using assms
  by (auto simp: bindField_def initPtr_def nestedMapFor_def isNested_def)

theorem array_field_rejects_non_nil_witness:
  "RSlice [RFloat64 1, RFloat64 2] \<noteq> (RNil :: int raw)
   \<and> setField (exampleEnv (\<lambda>bytes. Inr []) None) (VArray [VInt 64 0, VInt 64 0])
        (RSlice [RFloat64 1, RFloat64 2])
      = (VArray [VInt 64 0, VInt 64 0], Some ErrArrays)
   \<and> resolve (exampleRequest [] 0 None) [(''nums'', RSlice [RFloat64 1, RFloat64 (2::int)])]
        [(''body'', ''nums'')] = Some (RSlice [RFloat64 1, RFloat64 2], True)
   \<and> \<not> (omitEmpty [(''body'', ''nums'')]
         \<and> isEmptyValue (exampleEnv (\<lambda>bytes. Inr []) None) (RSlice [RFloat64 1, RFloat64 2]))
   \<and> bindField (exampleEnv (\<lambda>bytes. Inr []) None) (exampleRequest [] 0 None)
        [(''nums'', RSlice [RFloat64 1, RFloat64 2])]
        (SField ''Nums'' [(''body'', ''nums'')] (VArray [VInt 64 0, VInt 64 0]))
      = (SField ''Nums'' [(''body'', ''nums'')] (VArray [VInt 64 0, VInt 64 0]),
         Some (ErrSetField ''Nums'' ErrArrays))"
proof -
  let ?v = "RSlice [RFloat64 1, RFloat64 2] :: int raw"
  let ?env = "exampleEnv (\<lambda>bytes. Inr []) None"
  let ?r = "exampleRequest [] 0 None"
  let ?b = "[(''nums'', ?v)]"
  let ?t = "[(''body'', ''nums'')]"
  have h: "?v \<noteq> RNil"
    by simp
  have h2: "resolve ?r ?b ?t = Some (?v, True)"
    by (simp add: resolve_def Let_def Get_def path_def query_def body_def)
  have h3: "\<not> (omitEmpty ?t \<and> isEmptyValue ?env ?v)"
    by (simp add: isEmptyValue_def)
  note c = array_field_rejects_non_nil [OF h, of ?env "[VInt 64 0, VInt 64 0]"]
  from c have c1: "setField ?env (VArray [VInt 64 0, VInt 64 0]) ?v
      = (VArray [VInt 64 0, VInt 64 0], Some ErrArrays)"
    by (rule conjunct1)
  from c h2 h3 have c2: "bindField ?env ?r ?b (SField ''Nums'' ?t (VArray [VInt 64 0, VInt 64 0]))
      = (SField ''Nums'' ?t (VArray [VInt 64 0, VInt 64 0]), Some (ErrSetField ''Nums'' ErrArrays))"
    by blast
  show ?thesis
    by (intro conjI) (rule h, rule c1, rule h2, rule h3, rule c2)
qed

text \<open>
  The claim as stated fails on the nil value (a JSON \<^verbatim>\<open>null\<close>), which \<^verbatim>\<open>setField\<close>
  returns on before it looks at the field: no error, the array untouched.
\<close>

theorem array_field_nil_counterexample:
  "setField (exampleEnv (\<lambda>bytes. Inr []) None) (VArray [VInt 64 0, VInt 64 0]) RNil
     = (VArray [VInt 64 0, VInt 64 0], None)"
  by simp

section \<open>The field metadata cache and Bind\<close>

text \<open>
  C9. \<^verbatim>\<open>Bind\<close> leaves the package's field cache as it found it, and what it does to the
  request and the destination, the calls of \<^verbatim>\<open>Validate\<close> and the error returned are the
  same for every content of the cache.
\<close>

theorem Bind_ignores_fieldCache:
  "cacheAfter (Bind env c r i) = c
   \<and> Bind env c' r i = (Bind env c r i)\<lparr>cacheAfter := c'\<rparr>"
  by (simp add: Bind_def bindWith_def split: prod.splits sum.splits option.splits)

section \<open>A request without a readable length\<close>

text \<open>
  C10. When the request has no body stream or its declared length is zero or negative,
  \<^verbatim>\<open>Bind\<close> takes the empty body map without touching the stream: the request is left
  as it was, and every field whose winning marker is \<^verbatim>\<open>body\<close> or \<^verbatim>\<open>json\<close> keeps the
  value it had.
\<close>

theorem no_body_leaves_body_fields:
  assumes "Body r = None \<or> ContentLength r \<le> 0"
  shows "readBody env r = (r, Inr [])
       \<and> requestAfter (Bind env c r i) = r
       \<and> length (target (Bind env c r i)) = length i
       \<and> (\<forall>k<length i.
             Get (Tag (i ! k)) path = [] \<and> Get (Tag (i ! k)) query = []
             \<and> (Get (Tag (i ! k)) body \<noteq> [] \<or> Get (Tag (i ! k)) jjson \<noteq> [])
             \<longrightarrow> target (Bind env c r i) ! k = i ! k)"
proof -
  have rb: "readBody env r = (r, Inr [])"
    using assms by (rule readBody_absent)
  then have b: "Bind env c r i = bindWith env c r [] i"
    by (simp add: Bind_def)
  show ?thesis
    unfolding b
    by (auto simp: rb requestAfter_bindWith target_bindWith bindFields_length
        intro!: bindFields_nth_unchanged bindField_body_absent)
qed

theorem no_body_leaves_body_fields_witness:
  \<open>ContentLength (exampleRequest ''application/json'' (- 1) (Some (Stream ''{"email":"a@b.io"}'' None))) \<le> 0
   \<and> readBody (exampleEnv (\<lambda>bytes. Inr [(''email'', RString ''a@b.io'')]) None)
        (exampleRequest ''application/json'' (- 1) (Some (Stream ''{"email":"a@b.io"}'' None)))
      = (exampleRequest ''application/json'' (- 1) (Some (Stream ''{"email":"a@b.io"}'' None)), Inr [])
   \<and> requestAfter (Bind (exampleEnv (\<lambda>bytes. Inr [(''email'', RString ''a@b.io'')]) None) emptyCache
        (exampleRequest ''application/json'' (- 1) (Some (Stream ''{"email":"a@b.io"}'' None)))
        [SField ''ID'' [(''path'', ''id'')] (VInt 64 0),
         SField ''Email'' [(''json'', ''email'')] (VString ''old'')])
      = exampleRequest ''application/json'' (- 1) (Some (Stream ''{"email":"a@b.io"}'' None))
   \<and> Get (Tag (SField ''Email'' [(''json'', ''email'')] (VString ''old'' :: int gval))) jjson \<noteq> []
   \<and> target (Bind (exampleEnv (\<lambda>bytes. Inr [(''email'', RString ''a@b.io'')]) None) emptyCache
        (exampleRequest ''application/json'' (- 1) (Some (Stream ''{"email":"a@b.io"}'' None)))
        [SField ''ID'' [(''path'', ''id'')] (VInt 64 0),
         SField ''Email'' [(''json'', ''email'')] (VString ''old'')]) ! 1
      = SField ''Email'' [(''json'', ''email'')] (VString ''old'')\<close>
proof -
  let ?env = "exampleEnv (\<lambda>bytes. Inr [(''email'', RString ''a@b.io'')]) None"
  let ?r = \<open>exampleRequest ''application/json'' (- 1) (Some (Stream ''{"email":"a@b.io"}'' None))\<close>
  let ?i = "[SField ''ID'' [(''path'', ''id'')] (VInt 64 0),
             SField ''Email'' [(''json'', ''email'')] (VString ''old'')] :: int sfield list"
  have h: "ContentLength ?r \<le> 0"
    by (simp add: exampleRequest_def)
  then have h': "Body ?r = None \<or> ContentLength ?r \<le> 0"
    by (rule disjI2)
  note c = no_body_leaves_body_fields [OF h', of ?env emptyCache ?i]
  from c have c1: "readBody ?env ?r = (?r, Inr [])"
    by (rule conjunct1)
  from c have c2: "requestAfter (Bind ?env emptyCache ?r ?i) = ?r"
    by blast
  have t: "Get (Tag (SField ''Email'' [(''json'', ''email'')] (VString ''old'' :: int gval))) jjson \<noteq> []"
    by (simp add: Get_def jjson_def)
  have k: "(1::nat) < length ?i"
    by simp
  have tags: "Get (Tag (?i ! 1)) path = [] \<and> Get (Tag (?i ! 1)) query = []
      \<and> (Get (Tag (?i ! 1)) body \<noteq> [] \<or> Get (Tag (?i ! 1)) jjson \<noteq> [])"
    by (simp add: Get_def path_def query_def body_def jjson_def)
  from c k tags have "target (Bind ?env emptyCache ?r ?i) ! 1 = ?i ! 1"
    by blast
  then have c3: "target (Bind ?env emptyCache ?r ?i) ! 1
      = SField ''Email'' [(''json'', ''email'')] (VString ''old'')"
    by simp
  show ?thesis
    by (intro conjI) (rule h, rule c1, rule c2, rule t, rule c3)
qed

end
